theory Spec2Isabelle
  imports Main "HOL-Library.Word" "HOL-Library.Sublist"
begin

section \<open>Data model of \<open>beetsplug/notify.py\<close>\<close>

text \<open>
  Python \<open>str\<close> values are modelled as \<open>string\<close>; one \<open>char\<close> stands for one
  character of the Python string, so \<open>length\<close> is Python's \<open>len\<close>. Python \<open>bytes\<close>
  values are lists of 8-bit words. Python \<open>int\<close> is \<open>int\<close>.
\<close>

type_synonym byte = "8 word"

text \<open>A raised \<open>Exception\<close>, carrying the text that \<open>str(e)\<close> gives.\<close>

datatype exn = Exception string

text \<open>
  The value of \<open>album.artpath\<close>: beets stores a path as \<open>bytes\<close>; the code also
  accepts a \<open>str\<close>. \<open>None\<close> (no artwork) is the \<open>None\<close> of the option type.
\<close>

datatype path_val = Bytes "byte list" | Str string

record Album =
  albumartist :: string
  album :: string
  year :: int
  artpath :: "path_val option"

text \<open>
  The keys of \<open>self.config\<close>, as added in \<open>__init__\<close>, after their coercions
  (\<open>truncate_cfg\<close> is the key \<open>truncate\<close>).
\<close>

record config =
  apprise_urls :: "string list"
  truncate_cfg :: int
  body_maxlength :: int
  artwork :: bool
  artwork_maxsize :: int
  show_first_art :: bool

datatype level = Debug | Info | Warning | Error

text \<open>
  Everything the plugin does to the outside is recorded, in order, in a trace: the
  lines it logs and the calls it makes to the operating system, the art resizer and
  Apprise.
\<close>

datatype event =
    Log level string
  | Getsize string
  | NamedTemporaryFile string
  | Resize int string string int
  | Add string
  | Notify string string "string option"

text \<open>
  The external collaborators, as functions on a state \<open>'w\<close> of the outside world
  (the file system and the Apprise object): \<open>os.path.getsize\<close>, \<open>os.path.splitext\<close>,
  \<open>tempfile.NamedTemporaryFile(suffix=ext, delete=False).name\<close>,
  \<open>ArtResizer().resize(maxwidth, path_in, path_out, max_filesize)\<close>,
  \<open>bytes.decode("utf-8")\<close>, \<open>apprise.Apprise()\<close>, \<open>apobj.add(url)\<close>, \<open>len(apobj)\<close> and
  \<open>apobj.notify(title, body, attach)\<close>. A call that raises returns \<open>Inl\<close>.
\<close>

record 'w env =
  os_getsize :: "string \<Rightarrow> 'w \<Rightarrow> exn + int"
  os_splitext :: "string \<Rightarrow> string \<times> string"
  named_temporary_file :: "string \<Rightarrow> 'w \<Rightarrow> (exn + string) \<times> 'w"
  artresizer_resize :: "int \<Rightarrow> string \<Rightarrow> string \<Rightarrow> int \<Rightarrow> 'w \<Rightarrow> (exn + string) \<times> 'w"
  decode_utf8 :: "byte list \<Rightarrow> exn + string"
  apprise_new :: "'w \<Rightarrow> 'w"
  apprise_add :: "string \<Rightarrow> 'w \<Rightarrow> bool \<times> 'w"
  apprise_len :: "'w \<Rightarrow> nat"
  apprise_notify :: "string \<Rightarrow> string \<Rightarrow> string option \<Rightarrow> 'w \<Rightarrow> (exn + bool) \<times> 'w"

text \<open>The trace so far, and the outside world.\<close>

type_synonym 'w io = "event list \<times> 'w"

text \<open>
  The plugin object: its configuration, the class-level list \<open>imported_albums\<close>, and
  the trace and world it acts on.
\<close>

record 'w plugin =
  config :: config
  imported_albums :: "Album list"
  io :: "'w io"

section \<open>Python primitives\<close>

text \<open>\<open>str(n)\<close> for a natural number, and for an \<open>int\<close>.\<close>

fun str_nat :: "nat \<Rightarrow> string" where
  "str_nat n =
     (if n < 10 then [''0123456789'' ! n]
      else str_nat (n div 10) @ [''0123456789'' ! (n mod 10)])"

declare str_nat.simps [simp del]

definition str_int :: "int \<Rightarrow> string" where
  "str_int i = (if i < 0 then CHR ''-'' # str_nat (nat (- i)) else str_nat (nat i))"

text \<open>The slice \<open>xs[:k]\<close>; a negative \<open>k\<close> counts from the end.\<close>

definition slice_to :: "'a list \<Rightarrow> int \<Rightarrow> 'a list" where
  "slice_to xs k =
     (if k < 0 then take (nat (int (length xs) + k)) xs else take (nat k) xs)"

text \<open>\<open>sep.join(xs)\<close>.\<close>

fun join :: "string \<Rightarrow> string list \<Rightarrow> string" where
  "join sep [] = []"
| "join sep [x] = x"
| "join sep (x # y # ys) = x @ sep @ join sep (y # ys)"

text \<open>Truth value of \<open>album.artpath\<close> and of the returned \<open>artwork_path\<close>.\<close>

fun truthy_path :: "path_val option \<Rightarrow> bool" where
  "truthy_path None = False"
| "truthy_path (Some (Bytes bs)) = (bs \<noteq> [])"
| "truthy_path (Some (Str p)) = (p \<noteq> [])"

fun truthy_str :: "string option \<Rightarrow> bool" where
  "truthy_str None = False"
| "truthy_str (Some p) = (p \<noteq> [])"

definition log :: "level \<Rightarrow> string \<Rightarrow> 'w io \<Rightarrow> 'w io" where
  "log lv msg s = (fst s @ [Log lv msg], snd s)"

section \<open>\<open>resize_artwork\<close>\<close>

definition resize_artwork :: "'w env \<Rightarrow> string \<Rightarrow> int \<Rightarrow> 'w io \<Rightarrow> (exn + string) \<times> 'w io" where
  "resize_artwork E art_path max_filesize s =
     (let tr1 = fst s @ [Getsize art_path]; w = snd s in
      (case os_getsize E art_path w of
         Inl e \<Rightarrow> (Inl e, (tr1, w))
       | Inr current_size \<Rightarrow>
           if max_filesize = 0 \<or> current_size \<le> max_filesize then (Inr art_path, (tr1, w))
           else
             (let ext = snd (os_splitext E art_path);
                  tr2 = tr1 @ [NamedTemporaryFile ext] in
              (case named_temporary_file E ext w of
                 (Inl e, w1) \<Rightarrow> (Inl e, (tr2, w1))
               | (Inr tmp_name, w1) \<Rightarrow>
                   (case artresizer_resize E 1000 art_path tmp_name max_filesize w1 of
                      (resized_path, w2) \<Rightarrow>
                        (resized_path,
                         (tr2 @ [Resize 1000 art_path tmp_name max_filesize], w2)))))))"

section \<open>\<open>NotifyPlugin\<close>\<close>

definition album_imported :: "Album \<Rightarrow> 'w plugin \<Rightarrow> 'w plugin" where
  "album_imported a self = self\<lparr>imported_albums := imported_albums self @ [a]\<rparr>"

text \<open>The line \<open>f"{album.albumartist} - {album.album} ({album.year})"\<close>.\<close>

definition album_line :: "Album \<Rightarrow> string" where
  "album_line a = albumartist a @ '' - '' @ album a @ '' ('' @ str_int (year a) @ '')''"

text \<open>
  The body of the \<open>try\<close> in \<open>build_message\<close>: decode a \<open>bytes\<close> path, then resize.
  With \<open>artpath = None\<close> (excluded by the guard before the \<open>try\<close>) \<open>os.path.getsize(None)\<close>
  raises a \<open>TypeError\<close>.
\<close>

definition try_artwork :: "'w env \<Rightarrow> config \<Rightarrow> path_val option \<Rightarrow> 'w io \<Rightarrow> (exn + string) \<times> 'w io" where
  "try_artwork E cfg ap s =
     (case ap of
        None \<Rightarrow> (Inl (Exception ''TypeError''), s)
      | Some (Bytes bs) \<Rightarrow>
          (case decode_utf8 E bs of
             Inl e \<Rightarrow> (Inl e, s)
           | Inr art_path \<Rightarrow> resize_artwork E art_path (artwork_maxsize cfg) s)
      | Some (Str art_path) \<Rightarrow> resize_artwork E art_path (artwork_maxsize cfg) s)"

text \<open>
  The \<open>for i, album in enumerate(...)\<close> loop of \<open>build_message\<close>, over the enumerated
  slice, with the loop's variables \<open>body_lines\<close>, \<open>artwork_path\<close> and the trace and
  world as its state.
\<close>

fun build_loop ::
  "'w env \<Rightarrow> config \<Rightarrow> (nat \<times> Album) list \<Rightarrow> string list \<times> string option \<times> 'w io
     \<Rightarrow> string list \<times> string option \<times> 'w io" where
  "build_loop E cfg [] st = st"
| "build_loop E cfg ((i, a) # rest) (body_lines, artwork_path, s) =
     (let body_lines' = body_lines @ [album_line a] in
      if i = 0 \<and> artwork cfg \<and> show_first_art cfg \<and> truthy_path (artpath a) then
        (case try_artwork E cfg (artpath a) s of
           (Inr p, s') \<Rightarrow> build_loop E cfg rest (body_lines', Some p, s')
         | (Inl (Exception msg), s') \<Rightarrow>
             build_loop E cfg rest
               (body_lines', artwork_path, log Debug (''failed to process artwork: '' @ msg) s'))
      else build_loop E cfg rest (body_lines', artwork_path, s))"

definition build_message ::
  "'w env \<Rightarrow> config \<Rightarrow> Album list \<Rightarrow> 'w io \<Rightarrow> (string \<times> string \<times> string option) \<times> 'w io" where
  "build_message E cfg albums s =
     (let max_albums = min (int (length albums)) (truncate_cfg cfg);
          album_word = (if length albums = 1 then ''album'' else ''albums'');
          title = ''Beets: '' @ str_nat (length albums) @ '' '' @ album_word @ '' imported'';
          (body_lines, artwork_path, s') =
             build_loop E cfg (List.enumerate 0 (slice_to albums max_albums)) ([], None, s);
          body = join ''\<newline>'' body_lines;
          body = (if int (length albums) > max_albums
                  then body @ ''\<newline>...and '' @ str_int (int (length albums) - max_albums) @ '' more''
                  else body);
          max_length = body_maxlength cfg;
          body = (if int (length body) > max_length
                  then slice_to body (max_length - 3) @ ''...''
                  else body)
      in ((title, body, artwork_path), s'))"

text \<open>The \<open>for url in urls\<close> loop of \<open>send_notification\<close>.\<close>

fun add_urls :: "'w env \<Rightarrow> string list \<Rightarrow> 'w io \<Rightarrow> 'w io" where
  "add_urls E [] s = s"
| "add_urls E (url # urls) s =
     (case apprise_add E url (snd s) of
        (ok, w') \<Rightarrow>
          add_urls E urls
            (if ok then (fst s @ [Add url], w')
             else log Warning ''failed to add apprise URL'' (fst s @ [Add url], w')))"

definition send_notification :: "'w env \<Rightarrow> config \<Rightarrow> Album list \<Rightarrow> 'w io \<Rightarrow> 'w io" where
  "send_notification E cfg albums s =
     (let urls = apprise_urls cfg in
      if urls = [] then log Debug ''no apprise URLs configured'' s
      else
        (case build_message E cfg albums s of
           ((title, body, artwork_path), s1) \<Rightarrow>
             (let s2 = add_urls E urls (fst s1, apprise_new E (snd s1)) in
              if apprise_len E (snd s2) = 0
              then log Error ''no valid apprise URLs configured'' s2
              else
                (let attach = (if truthy_str artwork_path then artwork_path else None);
                     tr3 = fst s2 @ [Notify title body attach] in
                 (case apprise_notify E title body attach (snd s2) of
                    (Inr success, w3) \<Rightarrow>
                      if success
                      then log Info (''notification sent to '' @ str_nat (apprise_len E w3)
                                       @ '' service(s)'') (tr3, w3)
                      else log Error ''notification failed'' (tr3, w3)
                  | (Inl (Exception msg), w3) \<Rightarrow>
                      log Error (''notification error: '' @ msg) (tr3, w3))))))"

definition notify_on_cli_exit :: "'w env \<Rightarrow> 'w plugin \<Rightarrow> 'w plugin" where
  "notify_on_cli_exit E self =
     (if imported_albums self = [] then self
      else
        let s1 = log Debug (''sending notification for ''
                   @ str_nat (length (imported_albums self)) @ '' album(s)'') (io self)
        in self\<lparr>io := send_notification E (config self) (imported_albums self) s1\<rparr>)"

section \<open>Reading a result and a trace\<close>

text \<open>The three components of the tuple that \<open>build_message\<close> returns.\<close>

definition msg_title :: "(string \<times> string \<times> string option) \<times> 'w io \<Rightarrow> string" where
  "msg_title r = fst (fst r)"

definition msg_body :: "(string \<times> string \<times> string option) \<times> 'w io \<Rightarrow> string" where
  "msg_body r = fst (snd (fst r))"

definition msg_artwork :: "(string \<times> string \<times> string option) \<times> 'w io \<Rightarrow> string option" where
  "msg_artwork r = snd (snd (fst r))"

text \<open>The lines logged at one level, and the number of \<open>apobj.notify\<close> calls, in a trace.\<close>

fun logged :: "level \<Rightarrow> event list \<Rightarrow> string list" where
  "logged lv [] = []"
| "logged lv (Log l msg # evs) = (if l = lv then msg # logged lv evs else logged lv evs)"
| "logged lv (_ # evs) = logged lv evs"

fun notify_calls :: "event list \<Rightarrow> nat" where
  "notify_calls [] = 0"
| "notify_calls (Notify title body attach # evs) = Suc (notify_calls evs)"
| "notify_calls (_ # evs) = notify_calls evs"

text \<open>The number that a string of decimal digits denotes.\<close>

definition digit_value :: "char \<Rightarrow> nat" where
  "digit_value c = of_char c - 48"

definition dec_value :: "string \<Rightarrow> nat" where
  "dec_value ds = foldl (\<lambda>v c. 10 * v + digit_value c) 0 ds"

text \<open>The number of temporary files created in a trace.\<close>

fun temp_files :: "event list \<Rightarrow> nat" where
  "temp_files [] = 0"
| "temp_files (NamedTemporaryFile ext # evs) = Suc (temp_files evs)"
| "temp_files (_ # evs) = temp_files evs"

section \<open>The listing as the specification words it\<close>

text \<open>
  Steps 1, 3 and 5 of the composer's algorithm in the specification: the first
  \<open>displayCount = min(len(batch), truncateCount)\<close> items, one line each, newline-joined,
  then a line \<open>...and <remaining> more\<close> when \<open>remaining = len(batch) - displayCount\<close>
  is positive.
\<close>

definition listed_body :: "nat \<Rightarrow> Album list \<Rightarrow> string" where
  "listed_body T batch =
     (let displayCount = min (length batch) T;
          remaining = length batch - displayCount
      in join ''\<newline>'' (map album_line (take displayCount batch))
         @ (if remaining > 0 then ''\<newline>...and '' @ str_nat remaining @ '' more'' else []))"

section \<open>An example run\<close>

text \<open>
  An environment for the examples. Its world is the list of URLs the Apprise object
  holds. One file exists, of 5000 bytes; the extension of a path is its last four
  characters; temporary files get a fixed name; the resizer writes to the path it is
  given and returns it; URLs starting with \<open>bad://\<close> are rejected; delivery
  succeeds. Its decoder accepts 7-bit input, where UTF-8 decoding maps each byte to the
  character of the same code, and rejects every other byte.
\<close>

fun decode_7bit :: "byte list \<Rightarrow> exn + string" where
  "decode_7bit [] = Inr []"
| "decode_7bit (b # bs) =
     (if b < 0x80
      then (case decode_7bit bs of Inl e \<Rightarrow> Inl e | Inr p \<Rightarrow> Inr (char_of (unat b) # p))
      else Inl (Exception ''invalid start byte''))"

definition example_env :: "string list env" where
  "example_env =
     \<lparr> os_getsize = (\<lambda>p w. if p = ''/m/cover.jpg'' then Inr 5000
                            else Inl (Exception ''No such file or directory'')),
       os_splitext = (\<lambda>p. (take (length p - 4) p, drop (length p - 4) p)),
       named_temporary_file = (\<lambda>ext w. (Inr (''/tmp/tmpab12'' @ ext), w)),
       artresizer_resize = (\<lambda>maxwidth path_in path_out max_filesize w. (Inr path_out, w)),
       decode_utf8 = decode_7bit,
       apprise_new = (\<lambda>w. []),
       apprise_add = (\<lambda>url w. if take 6 url = ''bad://'' then (False, w) else (True, w @ [url])),
       apprise_len = length,
       apprise_notify = (\<lambda>title body attach w. (Inr True, w)) \<rparr>"

definition example_config :: config where
  "example_config =
     \<lparr> apprise_urls = [''json://localhost''], truncate_cfg = 2, body_maxlength = 1024,
       artwork = True, artwork_maxsize = 0, show_first_art = True \<rparr>"

definition example_albums :: "Album list" where
  "example_albums =
     [\<lparr>albumartist = ''A'', album = ''X'', year = 2020, artpath = Some (Str ''/m/cover.jpg'')\<rparr>,
      \<lparr>albumartist = ''B'', album = ''Y'', year = 2021, artpath = None\<rparr>,
      \<lparr>albumartist = ''C'', album = ''Z'', year = 2022, artpath = None\<rparr>]"

text \<open>The same environment with a resizer that raises.\<close>

definition failing_resizer_env :: "string list env" where
  "failing_resizer_env =
     example_env\<lparr>artresizer_resize :=
       (\<lambda>maxwidth path_in path_out max_filesize w. (Inl (Exception ''resize failed''), w))\<rparr>"

text \<open>
  Albums whose artwork path names no file, is the \<open>bytes\<close> value \<open>b"/m/cover.jpg"\<close>,
  and is the \<open>bytes\<close> value of the two bytes \<open>2F FF\<close>, which is not valid UTF-8.
\<close>

definition missing_art_album :: Album where
  "missing_art_album =
     \<lparr>albumartist = ''A'', album = ''X'', year = 2020, artpath = Some (Str ''/m/missing.jpg'')\<rparr>"

definition bytes_art_album :: Album where
  "bytes_art_album =
     \<lparr>albumartist = ''A'', album = ''X'', year = 2020,
      artpath = Some (Bytes [0x2F, 0x6D, 0x2F, 0x63, 0x6F, 0x76, 0x65, 0x72, 0x2E, 0x6A, 0x70, 0x67])\<rparr>"

definition bad_bytes_album :: Album where
  "bad_bytes_album =
     \<lparr>albumartist = ''A'', album = ''X'', year = 2020, artpath = Some (Bytes [0x2F, 0xFF])\<rparr>"

text \<open>
  The plugin at the end of a run that imported nothing, and of one that imported the
  example batch.
\<close>

definition empty_plugin :: "string list plugin" where
  "empty_plugin = \<lparr>config = example_config, imported_albums = [], io = ([], [])\<rparr>"

definition example_plugin :: "string list plugin" where
  "example_plugin = \<lparr>config = example_config, imported_albums = example_albums, io = ([], [])\<rparr>"

section \<open>The loop of \<open>build_message\<close>\<close>

text \<open>After index 0 the loop only appends lines.\<close>

lemma build_loop_later:
  "build_loop E cfg (List.enumerate (Suc n) xs) (bl, ap, s) = (bl @ map album_line xs, ap, s)"
  by (induction xs arbitrary: n bl) simp_all

lemma build_loop_first:
  "build_loop E cfg (List.enumerate 0 (a # r)) ([], None, s) =
     (if artwork cfg \<and> show_first_art cfg \<and> truthy_path (artpath a) then
        (case try_artwork E cfg (artpath a) s of
           (Inr p, s') \<Rightarrow> (map album_line (a # r), Some p, s')
         | (Inl (Exception msg), s') \<Rightarrow>
             (map album_line (a # r), None, log Debug (''failed to process artwork: '' @ msg) s'))
      else (map album_line (a # r), None, s))"
  by (simp add: build_loop_later Let_def split: prod.splits sum.splits exn.splits)

lemma build_loop_lines:
  "fst (build_loop E cfg (List.enumerate 0 xs) ([], None, s)) = map album_line xs"
proof (cases xs)
  case Nil
  then show ?thesis by simp
next
  case (Cons a r)
  show ?thesis unfolding Cons build_loop_first
    by (simp split: prod.splits sum.splits exn.splits)
qed

text \<open>The title and the body do not depend on the environment.\<close>

lemma build_message_title:
  "msg_title (build_message E cfg albums s) =
     ''Beets: '' @ str_nat (length albums) @
       (if length albums = 1 then '' album imported'' else '' albums imported'')"
  by (simp add: msg_title_def build_message_def Let_def split: prod.splits)

lemma build_message_body:
  "msg_body (build_message E cfg albums s) =
     (let max_albums = min (int (length albums)) (truncate_cfg cfg);
          body = join ''\<newline>'' (map album_line (slice_to albums max_albums));
          body = (if int (length albums) > max_albums
                  then body @ ''\<newline>...and '' @ str_int (int (length albums) - max_albums)
                         @ '' more''
                  else body)
      in if int (length body) > body_maxlength cfg
         then slice_to body (body_maxlength cfg - 3) @ ''...''
         else body)"
proof -
  let ?xs = "slice_to albums (min (int (length albums)) (truncate_cfg cfg))"
  obtain bl ap s' where L: "build_loop E cfg (List.enumerate 0 ?xs) ([], None, s) = (bl, ap, s')"
    by (metis prod_cases3)
  have "bl = map album_line ?xs"
    using build_loop_lines [of E cfg ?xs s] L by simp
  then show ?thesis
    using L by (simp add: msg_body_def build_message_def Let_def)
qed

text \<open>The attachment and the trace are those the loop leaves.\<close>

lemma build_message_loop:
  "(msg_artwork (build_message E cfg albums s), snd (build_message E cfg albums s)) =
     snd (build_loop E cfg
            (List.enumerate 0 (slice_to albums (min (int (length albums)) (truncate_cfg cfg))))
            ([], None, s))"
  by (simp add: msg_artwork_def build_message_def Let_def split: prod.splits)

text \<open>With a truncate count of at least 0 the slice is a \<open>take\<close>.\<close>

lemma nat_min_int: "0 \<le> T \<Longrightarrow> nat (min (int n) T) = min n (nat T)"
  by (simp add: min_def) linarith

lemma slice_to_min:
  "0 \<le> T \<Longrightarrow> slice_to xs (min (int (length xs)) T) = take (min (length xs) (nat T)) xs"
  by (simp add: slice_to_def nat_min_int)

lemma slice_to_Cons:
  "1 \<le> T \<Longrightarrow> slice_to (a # r) (min (int (length (a # r))) T) = a # take (nat T - 1) r"
  using slice_to_min [of T "a # r"] by (cases "nat T") (simp_all add: min_def)

lemma slice_to_zero: "slice_to xs (min (int (length xs)) 0) = []"
  by (simp add: slice_to_def)


text \<open>A joined list of lines ends as its last line does.\<close>

lemma join_last:
  "xs \<noteq> [] \<Longrightarrow> last xs \<noteq> [] \<Longrightarrow> join sep xs \<noteq> [] \<and> last (join sep xs) = last (last xs)"
  by (induction sep xs rule: join.induct) auto

lemma album_line_last: "album_line a \<noteq> [] \<and> last (album_line a) = CHR '')''"
  by (simp add: album_line_def)

lemma str_int_int: "str_int (int k) = str_nat k"
  by (simp add: str_int_def)

lemma str_int_diff:
  "0 \<le> T \<Longrightarrow> str_int (int n - min (int n) T) = str_nat (n - min n (nat T))"
proof -
  assume T: "0 \<le> T"
  have "int n - min (int n) T = int (n - min n (nat T))"
    using T by (simp add: min_def) linarith
  then show ?thesis by (simp only: str_int_int)
qed

text \<open>
  For a truncate count of at least 0 the body that the code assembles, before its
  length is bounded, is the listing of the specification.
\<close>

lemma body_as_listed:
  assumes "0 \<le> truncate_cfg cfg"
  shows "msg_body (build_message E cfg albums s) =
     (let pre = listed_body (nat (truncate_cfg cfg)) albums
      in if int (length pre) > body_maxlength cfg
         then slice_to pre (body_maxlength cfg - 3) @ ''...''
         else pre)"
proof -
  let ?m = "min (int (length albums)) (truncate_cfg cfg)"
  let ?K = "length albums - min (length albums) (nat (truncate_cfg cfg))"
  let ?b = "join ''\<newline>'' (map album_line (slice_to albums ?m))"
  let ?pre = "if ?m < int (length albums)
              then ?b @ ''\<newline>...and '' @ str_int (int (length albums) - ?m) @ '' more''
              else ?b"
  have lt: "(?m < int (length albums)) = (0 < ?K)"
    using assms by (simp add: min_def) linarith
  have "?pre = listed_body (nat (truncate_cfg cfg)) albums"
  proof (cases "0 < ?K")
    case True
    then have "?m < int (length albums)" by (simp only: lt)
    then have "?pre = ?b @ ''\<newline>...and '' @ str_int (int (length albums) - ?m) @ '' more''"
      by (simp only: if_True)
    also have "\<dots> = listed_body (nat (truncate_cfg cfg)) albums"
      unfolding listed_body_def Let_def
      using True by (simp only: if_True slice_to_min [OF assms] str_int_diff [OF assms])
    finally show ?thesis .
  next
    case False
    then have "\<not> ?m < int (length albums)" by (simp only: lt not_False_eq_True)
    then have "?pre = ?b"
      by (simp only: if_False)
    also have "\<dots> = listed_body (nat (truncate_cfg cfg)) albums"
      unfolding listed_body_def Let_def
      using False by (simp only: if_False slice_to_min [OF assms] append_Nil2)
    finally show ?thesis .
  qed
  then show ?thesis
    unfolding build_message_body Let_def by (simp only: )
qed

section \<open>The artwork of the first listed item\<close>

text \<open>
  When the slice is not empty its first item is item 0 of the batch, and the attachment
  and the trace are decided by the guard and by the \<open>try\<close> on that item alone.
\<close>

lemma build_message_first:
  assumes "1 \<le> truncate_cfg cfg"
  shows "(msg_artwork (build_message E cfg (a # rest) s), snd (build_message E cfg (a # rest) s)) =
     (if artwork cfg \<and> show_first_art cfg \<and> truthy_path (artpath a) then
        (case try_artwork E cfg (artpath a) s of
           (Inr p, s') \<Rightarrow> (Some p, s')
         | (Inl (Exception msg), s') \<Rightarrow>
             (None, log Debug (''failed to process artwork: '' @ msg) s'))
      else (None, s))"
  unfolding build_message_loop slice_to_Cons [OF assms] build_loop_first
  by (simp split: prod.splits sum.splits exn.splits)

lemma build_message_none_listed:
  assumes "truncate_cfg cfg = 0"
  shows "(msg_artwork (build_message E cfg albums s), snd (build_message E cfg albums s)) = (None, s)"
  unfolding build_message_loop assms slice_to_zero by simp


lemma first_unguarded:
  assumes "1 \<le> truncate_cfg cfg"
    and "\<not> (artwork cfg \<and> show_first_art cfg \<and> truthy_path (artpath a))"
  shows "msg_artwork (build_message E cfg (a # rest) s) = None"
    and "snd (build_message E cfg (a # rest) s) = s"
  using build_message_first [OF assms(1), of E a rest s] assms(2)
  by (simp_all only: if_False prod.inject)

lemma first_succeeds:
  assumes "1 \<le> truncate_cfg cfg"
    and "artwork cfg \<and> show_first_art cfg \<and> truthy_path (artpath a)"
    and "try_artwork E cfg (artpath a) s = (Inr p, s')"
  shows "msg_artwork (build_message E cfg (a # rest) s) = Some p"
    and "snd (build_message E cfg (a # rest) s) = s'"
  using build_message_first [OF assms(1), of E a rest s] assms(2)
  by (simp_all add: assms(3))

lemma first_fails:
  assumes "1 \<le> truncate_cfg cfg"
    and "artwork cfg \<and> show_first_art cfg \<and> truthy_path (artpath a)"
    and "try_artwork E cfg (artpath a) s = (Inl (Exception msg), s')"
  shows "msg_artwork (build_message E cfg (a # rest) s) = None"
    and "snd (build_message E cfg (a # rest) s) = log Debug (''failed to process artwork: '' @ msg) s'"
  using build_message_first [OF assms(1), of E a rest s] assms(2)
  by (simp_all add: assms(3))

text \<open>A listing of at least one item starts with the line of item 0.\<close>

lemma join_first: "prefix x (join sep (x # ls))"
  by (cases ls) simp_all

lemma listed_body_first_line:
  assumes "1 \<le> T"
  shows "prefix (album_line a) (listed_body T (a # rest))"
proof -
  obtain n where T: "T = Suc n" using assms by (cases T) auto
  let ?ls = "map album_line (take (min (length rest) n) rest)"
  have j: "prefix (album_line a) (join ''\<newline>'' (album_line a # ?ls))"
    by (rule join_first)
  obtain more where "listed_body T (a # rest) = join ''\<newline>'' (album_line a # ?ls) @ more"
    by (simp add: listed_body_def Let_def T)
  then show ?thesis
    using prefix_prefix [OF j] by simp
qed

text \<open>
  When the \<open>try\<close> on item 0 raises, the message carries no attachment, the handler
  logs the error at debug level, and the title and the body are those composed under
  any other environment.
\<close>

lemma failed_artwork_message:
  assumes "1 \<le> truncate_cfg cfg"
    and "artwork cfg \<and> show_first_art cfg \<and> truthy_path (artpath a)"
    and "try_artwork E cfg (artpath a) s = (Inl (Exception msg), s')"
  shows "build_message E cfg (a # rest) s =
     ((msg_title (build_message E' cfg (a # rest) t),
       msg_body (build_message E' cfg (a # rest) t), None),
      log Debug (''failed to process artwork: '' @ msg) s')"
proof -
  let ?r = "build_message E cfg (a # rest) s"
  have art: "msg_artwork ?r = None"
    and io: "snd ?r = log Debug (''failed to process artwork: '' @ msg) s'"
    using first_fails [OF assms, of rest] by simp_all
  have title: "msg_title ?r = msg_title (build_message E' cfg (a # rest) t)"
    by (simp only: build_message_title)
  have body: "msg_body ?r = msg_body (build_message E' cfg (a # rest) t)"
    by (simp only: build_message_body)
  have r: "?r = ((msg_title ?r, msg_body ?r, msg_artwork ?r), snd ?r)"
    by (simp add: msg_title_def msg_body_def msg_artwork_def)
  show ?thesis
    using r unfolding art io title body .
qed

section \<open>Claims about the body\<close>

text \<open>
  Claim C3. For a batch of size \<open>N \<ge> 1\<close> and a truncate count \<open>T \<ge> 0\<close>, the body before
  length bounding is \<open>listed_body T\<close> of the batch: the lines of the first \<open>min N T\<close>
  items in append order, each \<open><artist> - <title> (<year>)\<close>, newline-joined, followed by
  the line \<open>...and K more\<close> exactly when \<open>K = N - min N T\<close> is positive. The returned
  body is that string after the length bounding of the code.
\<close>

theorem body_lists_first_items:
  assumes "albums \<noteq> []" and "0 \<le> truncate_cfg cfg"
  shows "(let T = nat (truncate_cfg cfg);
              K = length albums - min (length albums) T;
              pre = listed_body T albums
          in msg_body (build_message E cfg albums s) =
               (if int (length pre) > body_maxlength cfg
                then slice_to pre (body_maxlength cfg - 3) @ ''...''
                else pre)
             \<and> (suffix (''\<newline>...and '' @ str_nat K @ '' more'') pre \<longleftrightarrow> 0 < K))"
proof -
  let ?N = "length albums" and ?T = "nat (truncate_cfg cfg)"
  let ?K = "?N - min ?N ?T"
  let ?more = "''\<newline>...and '' @ str_nat ?K @ '' more''"
  let ?pre = "listed_body ?T albums"
  have 1: "msg_body (build_message E cfg albums s) =
                 (if int (length ?pre) > body_maxlength cfg
                  then slice_to ?pre (body_maxlength cfg - 3) @ ''...''
                  else ?pre)"
    using body_as_listed [OF assms(2), of E albums s] by (simp only: Let_def)
  have 2: "suffix ?more ?pre \<longleftrightarrow> 0 < ?K"
  proof
    assume sf: "suffix ?more ?pre"
    show "0 < ?K"
    proof (rule ccontr)
      assume "\<not> 0 < ?K"
      then have all: "min ?N ?T = ?N" by simp
      then have pre: "?pre = join ''\<newline>'' (map album_line albums)"
        by (simp add: listed_body_def Let_def)
      have "map album_line albums \<noteq> []" using assms(1) by simp
      moreover have "last (map album_line albums) \<noteq> []"
        using assms(1) by (simp add: last_map album_line_last)
      ultimately have "last ?pre = last (last (map album_line albums))"
        using join_last [of "map album_line albums" "''\<newline>''"] pre by simp
      then have e1: "last ?pre = CHR '')''"
        using assms(1) by (simp add: last_map album_line_last)
      from sf obtain u where "?pre = u @ ?more" by (auto simp: suffix_def)
      then have "last ?pre = last ?more" by simp
      then have "last ?pre = CHR ''e''" by simp
      with e1 show False by simp
    qed
  next
    assume "0 < ?K"
    then show "suffix ?more ?pre"
      by (simp add: listed_body_def Let_def suffix_def)
  qed
  show ?thesis
    unfolding Let_def using 1 2 by (rule conjI)
qed

text \<open>The example of the specification: three items, truncate 2.\<close>

theorem body_lists_first_items_witness:
  "example_albums \<noteq> [] \<and> 0 \<le> truncate_cfg example_config
   \<and> (let T = nat (truncate_cfg example_config);
           K = length example_albums - min (length example_albums) T;
           pre = listed_body T example_albums
       in msg_body (build_message example_env example_config example_albums ([], [])) =
            (if int (length pre) > body_maxlength example_config
             then slice_to pre (body_maxlength example_config - 3) @ ''...''
             else pre)
          \<and> (suffix (''\<newline>...and '' @ str_nat K @ '' more'') pre \<longleftrightarrow> 0 < K))
   \<and> listed_body (nat (truncate_cfg example_config)) example_albums
        = ''A - X (2020)\<newline>B - Y (2021)\<newline>...and 1 more''
   \<and> msg_body (build_message example_env example_config example_albums ([], []))
        = ''A - X (2020)\<newline>B - Y (2021)\<newline>...and 1 more''"
proof -
  have h1: "example_albums \<noteq> []" by (simp add: example_albums_def)
  have h2: "0 \<le> truncate_cfg example_config" by (simp add: example_config_def)
  have l: "listed_body (nat (truncate_cfg example_config)) example_albums
             = ''A - X (2020)\<newline>B - Y (2021)\<newline>...and 1 more''"
    by code_simp
  have b: "msg_body (build_message example_env example_config example_albums ([], []))
             = ''A - X (2020)\<newline>B - Y (2021)\<newline>...and 1 more''"
    by code_simp
  show ?thesis
    using h1 h2 l b body_lists_first_items [OF h1 h2, of example_env "([], [])"]
    by (intro conjI)
qed


text \<open>
  The length bounding keeps the body within \<open>body_maxlength\<close> when that is at least 3:
  the slice \<open>body[:max_length - 3]\<close> is then a prefix of at most \<open>max_length - 3\<close>
  characters.
\<close>

lemma bound_step:
  assumes "3 \<le> m"
  shows "int (length (if int (length b) > m then slice_to b (m - 3) @ ''...'' else b)) \<le> m"
proof (cases "int (length b) > m")
  case True
  have "slice_to b (m - 3) = take (nat (m - 3)) b"
    using assms by (simp add: slice_to_def)
  then have "length (slice_to b (m - 3)) \<le> nat (m - 3)" by simp
  then show ?thesis using True assms by simp
next
  case False
  then show ?thesis by simp
qed

lemma body_bounded_from_3:
  assumes "3 \<le> body_maxlength cfg"
  shows "int (length (msg_body (build_message E cfg albums s))) \<le> body_maxlength cfg"
  unfolding build_message_body Let_def by (rule bound_step [OF assms])

text \<open>
  Claim C2. The claim (the final body is never longer than \<open>bodyMaxLength\<close>, for every
  \<open>bodyMaxLength > 0\<close>) fails on the code for \<open>body_maxlength\<close> 1 and 2: there
  \<open>max_length - 3\<close> is negative, and the slice \<open>body[:max_length - 3]\<close> drops the last
  2 or 1 characters instead of keeping none. With \<open>body_maxlength = 2\<close> and the one album
  \<open>A - X (2020)\<close>, whose line has 12 characters, the returned body has 14.
\<close>

theorem body_exceeds_small_maxlength:
  "msg_body (build_message example_env (example_config\<lparr>body_maxlength := 2\<rparr>)
      [\<lparr>albumartist = ''A'', album = ''X'', year = 2020, artpath = None\<rparr>] ([], []))
     = ''A - X (2020...''
   \<and> length ''A - X (2020...'' = 14"
proof -
  have "msg_body (build_message example_env (example_config\<lparr>body_maxlength := 2\<rparr>)
      [\<lparr>albumartist = ''A'', album = ''X'', year = 2020, artpath = None\<rparr>] ([], []))
     = ''A - X (2020...''"
    by code_simp
  then show ?thesis by simp
qed

section \<open>Claims about the title\<close>

text \<open>\<open>str_nat n\<close> is the decimal numeral of \<open>n\<close>.\<close>

lemma digit_value_nth: "d < 10 \<Longrightarrow> digit_value (''0123456789'' ! d) = d"
proof -
  assume "d < 10"
  then consider "d = 0" | "d = 1" | "d = 2" | "d = 3" | "d = 4" | "d = 5" | "d = 6" | "d = 7"
    | "d = 8" | "d = 9"
    by atomize_elim arith
  then show ?thesis
    by cases (simp_all add: digit_value_def)
qed

lemma dec_value_snoc: "dec_value (ds @ [c]) = 10 * dec_value ds + digit_value c"
  by (simp add: dec_value_def)

lemma dec_value_str_nat: "dec_value (str_nat n) = n"
proof (induction n rule: str_nat.induct)
  case (1 n)
  show ?case
  proof (cases "n < 10")
    case True
    then show ?thesis
      by (simp add: str_nat.simps [of n] dec_value_def digit_value_nth)
  next
    case False
    then have "dec_value (str_nat n) = 10 * dec_value (str_nat (n div 10)) + n mod 10"
      by (simp add: str_nat.simps [of n] dec_value_snoc digit_value_nth)
    also have "\<dots> = 10 * (n div 10) + n mod 10"
      using 1 False by simp
    finally show ?thesis by simp
  qed
qed

text \<open>
  Claim C4, as stated, fails: the title is not exactly \<open><N> albums imported\<close>. For the
  three-item batch of the specification's example it is \<open>Beets: 3 albums imported\<close>.
\<close>

theorem title_without_prefix_counterexample:
  "msg_title (build_message example_env example_config example_albums ([], []))
     = ''Beets: 3 albums imported''
   \<and> msg_title (build_message example_env example_config example_albums ([], []))
     \<noteq> ''3 albums imported''"
proof -
  have "msg_title (build_message example_env example_config example_albums ([], []))
     = ''Beets: 3 albums imported''"
    by code_simp
  then show ?thesis by simp
qed

text \<open>
  Claim C4, amended. The title is \<open>Beets: <N> album imported\<close> when the batch has exactly
  one item and \<open>Beets: <N> albums imported\<close> otherwise, \<open><N>\<close> being the decimal numeral
  of the size of the batch.
\<close>

theorem title_counts_albums:
  "(let N = str_nat (length albums) in
    msg_title (build_message E cfg albums s) =
      (if length albums = 1
       then ''Beets: '' @ N @ '' album imported''
       else ''Beets: '' @ N @ '' albums imported'')
    \<and> dec_value N = length albums)"
proof -
  have "msg_title (build_message E cfg albums s) =
      (if length albums = 1
       then ''Beets: '' @ str_nat (length albums) @ '' album imported''
       else ''Beets: '' @ str_nat (length albums) @ '' albums imported'')"
    by (simp add: build_message_title)
  then show ?thesis
    unfolding Let_def using dec_value_str_nat [of "length albums"] by (rule conjI)
qed

text \<open>The titles for three albums and for one.\<close>

theorem title_counts_albums_witness:
  "msg_title (build_message example_env example_config example_albums ([], []))
     = ''Beets: 3 albums imported''
   \<and> msg_title (build_message example_env example_config [hd example_albums] ([], []))
     = ''Beets: 1 album imported''"
proof -
  have 3: "length example_albums = 3" by (simp add: example_albums_def)
  have s3: "str_nat 3 = ''3''" by (simp add: str_nat.simps)
  have s1: "str_nat (Suc 0) = ''1''" by (simp add: str_nat.simps)
  show ?thesis
    using title_counts_albums
        [where E = example_env and cfg = example_config and albums = example_albums
           and s = "([], [])"]
      title_counts_albums
        [where E = example_env and cfg = example_config and albums = "[hd example_albums]"
           and s = "([], [])"]
    by (simp add: Let_def 3 s3 s1)
qed

section \<open>Claims about the attachment\<close>

text \<open>
  Claim C1, as stated, fails: with a truncate count of 0 the loop runs over an empty
  slice, so no artwork is attached although both switches are on and item 0 has a path
  that resolves.
\<close>

theorem artwork_without_listing_counterexample:
  "\<not> (msg_artwork (build_message example_env (example_config\<lparr>truncate_cfg := 0\<rparr>)
           example_albums ([], [])) \<noteq> None
       \<longleftrightarrow> artwork (example_config\<lparr>truncate_cfg := 0\<rparr>)
            \<and> show_first_art (example_config\<lparr>truncate_cfg := 0\<rparr>)
            \<and> truthy_path (artpath (hd example_albums)))"
proof -
  have "msg_artwork (build_message example_env (example_config\<lparr>truncate_cfg := 0\<rparr>)
           example_albums ([], [])) = None"
    by code_simp
  moreover have "artwork (example_config\<lparr>truncate_cfg := 0\<rparr>)
            \<and> show_first_art (example_config\<lparr>truncate_cfg := 0\<rparr>)
            \<and> truthy_path (artpath (hd example_albums))"
    by (simp add: example_config_def example_albums_def)
  ultimately show ?thesis by simp
qed

text \<open>
  Claim C1, amended. For a non-empty batch and a truncate count of at least 0, an
  attachment is returned if and only if the truncate count is at least 1 (item 0 is
  listed), \<open>artwork\<close> and \<open>show_first_art\<close> are both true, item 0 has a non-empty
  \<open>artpath\<close>, and resolving and resizing that path raises no error; the attachment is
  then the path that \<open>resize_artwork\<close> returns.
\<close>

theorem artwork_of_listed_first_item:
  assumes "0 \<le> truncate_cfg cfg"
  shows "msg_artwork (build_message E cfg (a # rest) s) =
     (if 1 \<le> truncate_cfg cfg \<and> artwork cfg \<and> show_first_art cfg \<and> truthy_path (artpath a)
      then (case fst (try_artwork E cfg (artpath a) s) of Inr p \<Rightarrow> Some p | Inl e \<Rightarrow> None)
      else None)"
proof (cases "1 \<le> truncate_cfg cfg")
  case True
  show ?thesis
  proof (cases "artwork cfg \<and> show_first_art cfg \<and> truthy_path (artpath a)")
    case guard: True
    obtain r s' where t: "try_artwork E cfg (artpath a) s = (r, s')"
      by (cases "try_artwork E cfg (artpath a) s")
    show ?thesis
    proof (cases r)
      case (Inl e)
      obtain msg where e: "e = Exception msg" by (cases e)
      have "msg_artwork (build_message E cfg (a # rest) s) = None"
        using first_fails(1) [OF True guard, of E s msg s' rest] t Inl e by simp
      then show ?thesis using True guard t Inl by simp
    next
      case (Inr p)
      have "msg_artwork (build_message E cfg (a # rest) s) = Some p"
        using first_succeeds(1) [OF True guard, of E s p s' rest] t Inr by simp
      then show ?thesis using True guard t Inr by simp
    qed
  next
    case False
    then have "msg_artwork (build_message E cfg (a # rest) s) = None"
      by (rule first_unguarded(1) [OF True])
    then show ?thesis using False by auto
  qed
next
  case False
  then have "truncate_cfg cfg = 0" using assms by simp
  then have "msg_artwork (build_message E cfg (a # rest) s) = None"
    using build_message_none_listed [of cfg E "a # rest" s] by simp
  then show ?thesis using False by simp
qed

text \<open>The example batch with truncate 2, where the cover is attached, and with truncate 0.\<close>

theorem artwork_of_listed_first_item_witness:
  "0 \<le> truncate_cfg example_config
   \<and> msg_artwork (build_message example_env example_config example_albums ([], []))
       = Some ''/m/cover.jpg''
   \<and> 0 \<le> truncate_cfg (example_config\<lparr>truncate_cfg := 0\<rparr>)
   \<and> msg_artwork (build_message example_env (example_config\<lparr>truncate_cfg := 0\<rparr>)
         example_albums ([], [])) = None"
proof -
  let ?a = "\<lparr>albumartist = ''A'', album = ''X'', year = 2020, artpath = Some (Str ''/m/cover.jpg'')\<rparr>"
  let ?r = "[\<lparr>albumartist = ''B'', album = ''Y'', year = 2021, artpath = None\<rparr>,
      \<lparr>albumartist = ''C'', album = ''Z'', year = 2022, artpath = None\<rparr>]"
  have ex: "example_albums = ?a # ?r" by (simp add: example_albums_def)
  have h1: "0 \<le> truncate_cfg example_config" by (simp add: example_config_def)
  have h2: "0 \<le> truncate_cfg (example_config\<lparr>truncate_cfg := 0\<rparr>)" by simp
  have t: "fst (try_artwork example_env example_config (Some (Str ''/m/cover.jpg'')) ([], []))
     = Inr ''/m/cover.jpg''"
    by code_simp
  have 1: "msg_artwork (build_message example_env example_config example_albums ([], []))
       = Some ''/m/cover.jpg''"
    unfolding ex using artwork_of_listed_first_item [OF h1, of example_env ?a ?r "([], [])"] t
    by (simp add: example_config_def)
  have 2: "msg_artwork (build_message example_env (example_config\<lparr>truncate_cfg := 0\<rparr>)
         example_albums ([], [])) = None"
    unfolding ex using artwork_of_listed_first_item [OF h2, of example_env ?a ?r "([], [])"]
    by simp
  show ?thesis using h1 h2 1 2 by (intro conjI)
qed


text \<open>
  Claim C9. \<open>build_message\<close> returns a message for every batch: every call that can
  raise (decoding the path, \<open>os.path.getsize\<close>, creating the temporary file, the
  resizer) sits inside the \<open>try\<close>, whose handler catches every \<open>Exception\<close>, so the
  function has no error result. When the \<open>try\<close> on item 0 raises, the error is logged at
  debug level after whatever the \<open>try\<close> did, the attachment is \<open>None\<close>, and the title
  and the body are the ones composed under any other environment \<open>E'\<close>; the body is the
  bounded listing, which starts with the line of item 0.
\<close>

theorem artwork_error_omits_attachment:
  assumes "1 \<le> truncate_cfg cfg" and "artwork cfg" and "show_first_art cfg"
    and "truthy_path (artpath a)"
    and "try_artwork E cfg (artpath a) s = (Inl (Exception msg), s')"
  shows "(let pre = listed_body (nat (truncate_cfg cfg)) (a # rest);
              title = msg_title (build_message E' cfg (a # rest) t);
              body = (if int (length pre) > body_maxlength cfg
                      then slice_to pre (body_maxlength cfg - 3) @ ''...''
                      else pre)
          in build_message E cfg (a # rest) s =
               ((title, body, None), log Debug (''failed to process artwork: '' @ msg) s')
             \<and> body = msg_body (build_message E' cfg (a # rest) t)
             \<and> prefix (album_line a) pre)"
proof -
  have T0: "0 \<le> truncate_cfg cfg" and T1: "1 \<le> nat (truncate_cfg cfg)"
    using assms(1) by simp_all
  have guard: "artwork cfg \<and> show_first_art cfg \<and> truthy_path (artpath a)"
    using assms(2-4) by simp
  have body': "msg_body (build_message E' cfg (a # rest) t) =
      (if int (length (listed_body (nat (truncate_cfg cfg)) (a # rest))) > body_maxlength cfg
       then slice_to (listed_body (nat (truncate_cfg cfg)) (a # rest)) (body_maxlength cfg - 3) @ ''...''
       else listed_body (nat (truncate_cfg cfg)) (a # rest))"
    using body_as_listed [OF T0, of E' "a # rest" t] by (simp only: Let_def)
  show ?thesis
    unfolding Let_def
    using failed_artwork_message [OF assms(1) guard assms(5), of rest E' t] body'
      listed_body_first_line [OF T1, of a rest]
    by (simp only: simp_thms)
qed

text \<open>
  A cover that does not exist (\<open>os.path.getsize\<close> raises), and a resizer that raises
  after the temporary file was created.
\<close>

theorem artwork_error_omits_attachment_witness:
  "build_message example_env example_config [missing_art_album] ([], []) =
      ((''Beets: 1 album imported'', ''A - X (2020)'', None),
       ([Getsize ''/m/missing.jpg'',
         Log Debug ''failed to process artwork: No such file or directory''], []))
   \<and> build_message failing_resizer_env (example_config\<lparr>artwork_maxsize := 100\<rparr>)
        example_albums ([], []) =
      ((''Beets: 3 albums imported'', ''A - X (2020)\<newline>B - Y (2021)\<newline>...and 1 more'', None),
       ([Getsize ''/m/cover.jpg'', NamedTemporaryFile ''.jpg'',
         Resize 1000 ''/m/cover.jpg'' ''/tmp/tmpab12.jpg'' 100,
         Log Debug ''failed to process artwork: resize failed''], []))"
proof -
  let ?c2 = "example_config\<lparr>artwork_maxsize := 100\<rparr>"
  let ?a = "\<lparr>albumartist = ''A'', album = ''X'', year = 2020, artpath = Some (Str ''/m/cover.jpg'')\<rparr>"
  let ?r = "[\<lparr>albumartist = ''B'', album = ''Y'', year = 2021, artpath = None\<rparr>,
      \<lparr>albumartist = ''C'', album = ''Z'', year = 2022, artpath = None\<rparr>]"
  have ex: "example_albums = ?a # ?r" by (simp add: example_albums_def)
  have c1: "1 \<le> truncate_cfg example_config" "artwork example_config"
    "show_first_art example_config"
    by (simp_all add: example_config_def)
  have c2: "1 \<le> truncate_cfg ?c2" "artwork ?c2" "show_first_art ?c2"
    by (simp_all add: example_config_def)
  have p1: "truthy_path (artpath missing_art_album)" by (simp add: missing_art_album_def)
  have p2: "truthy_path (artpath ?a)" by simp
  have t1: "try_artwork example_env example_config (artpath missing_art_album) ([], []) =
      (Inl (Exception ''No such file or directory''), ([Getsize ''/m/missing.jpg''], []))"
    by code_simp
  have t2: "try_artwork failing_resizer_env ?c2 (artpath ?a) ([], []) =
      (Inl (Exception ''resize failed''),
       ([Getsize ''/m/cover.jpg'', NamedTemporaryFile ''.jpg'',
         Resize 1000 ''/m/cover.jpg'' ''/tmp/tmpab12.jpg'' 100], []))"
    by code_simp
  have v1: "msg_title (build_message example_env example_config [missing_art_album] ([], []))
       = ''Beets: 1 album imported''"
    "msg_body (build_message example_env example_config [missing_art_album] ([], []))
       = ''A - X (2020)''"
    by code_simp+
  have v2: "msg_title (build_message example_env ?c2 (?a # ?r) ([], []))
       = ''Beets: 3 albums imported''"
    "msg_body (build_message example_env ?c2 (?a # ?r) ([], []))
       = ''A - X (2020)\<newline>B - Y (2021)\<newline>...and 1 more''"
    by code_simp+
  have 1: "build_message example_env example_config [missing_art_album] ([], []) =
      ((''Beets: 1 album imported'', ''A - X (2020)'', None),
       ([Getsize ''/m/missing.jpg'',
         Log Debug ''failed to process artwork: No such file or directory''], []))"
    using artwork_error_omits_attachment [OF c1 p1 t1, of "[]" example_env "([], [])"]
    unfolding Let_def by (simp add: v1 log_def)
  have 2: "build_message failing_resizer_env ?c2 (?a # ?r) ([], []) =
      ((''Beets: 3 albums imported'', ''A - X (2020)\<newline>B - Y (2021)\<newline>...and 1 more'', None),
       ([Getsize ''/m/cover.jpg'', NamedTemporaryFile ''.jpg'',
         Resize 1000 ''/m/cover.jpg'' ''/tmp/tmpab12.jpg'' 100,
         Log Debug ''failed to process artwork: resize failed''], []))"
    using artwork_error_omits_attachment [OF c2 p2 t2, of ?r example_env "([], [])"]
    unfolding Let_def by (simp add: v2 log_def)
  show ?thesis using 1 2 unfolding ex by (rule conjI)
qed

text \<open>
  Claim C10. When item 0's \<open>artpath\<close> is a non-empty \<open>bytes\<close> value (and item 0 is listed,
  with both switches on), it is decoded as UTF-8 and \<open>resize_artwork\<close> runs on the decoded
  string; when the decoding raises, nothing else is attempted, the error is logged at
  debug level and the message is composed with no attachment.
\<close>

theorem bytes_artpath_decoded_before_resize:
  assumes "1 \<le> truncate_cfg cfg" and "artwork cfg" and "show_first_art cfg"
    and "artpath a = Some (Bytes bs)" and "bs \<noteq> []"
  shows "(case decode_utf8 E bs of
            Inr art_path \<Rightarrow>
              try_artwork E cfg (artpath a) s = resize_artwork E art_path (artwork_maxsize cfg) s
              \<and> (msg_artwork (build_message E cfg (a # rest) s), snd (build_message E cfg (a # rest) s)) =
                  (case resize_artwork E art_path (artwork_maxsize cfg) s of
                     (Inr p, s') \<Rightarrow> (Some p, s')
                   | (Inl (Exception msg), s') \<Rightarrow>
                       (None, log Debug (''failed to process artwork: '' @ msg) s'))
          | Inl (Exception msg) \<Rightarrow>
              build_message E cfg (a # rest) s =
                ((msg_title (build_message E' cfg (a # rest) t),
                  msg_body (build_message E' cfg (a # rest) t), None),
                 log Debug (''failed to process artwork: '' @ msg) s))"
proof -
  have guard: "artwork cfg \<and> show_first_art cfg \<and> truthy_path (artpath a)"
    using assms(2-5) by simp
  show ?thesis
  proof (cases "decode_utf8 E bs")
    case (Inl e)
    obtain msg where e: "e = Exception msg" by (cases e)
    have "try_artwork E cfg (artpath a) s = (Inl (Exception msg), s)"
      using Inl e assms(4) by (simp add: try_artwork_def)
    then show ?thesis
      using failed_artwork_message [OF assms(1) guard, of E s msg s rest E' t] Inl e by simp
  next
    case (Inr art_path)
    have t: "try_artwork E cfg (artpath a) s = resize_artwork E art_path (artwork_maxsize cfg) s"
      using Inr assms(4) by (simp add: try_artwork_def)
    have "(msg_artwork (build_message E cfg (a # rest) s), snd (build_message E cfg (a # rest) s)) =
        (case try_artwork E cfg (artpath a) s of
           (Inr p, s') \<Rightarrow> (Some p, s')
         | (Inl (Exception msg), s') \<Rightarrow>
             (None, log Debug (''failed to process artwork: '' @ msg) s'))"
      using build_message_first [OF assms(1), of E a rest s] guard by (simp only: simp_thms if_True)
    then show ?thesis
      using Inr t by (simp only: sum.case simp_thms)
  qed
qed

text \<open>The bytes \<open>b"/m/cover.jpg"\<close>, and the two bytes \<open>2F FF\<close>.\<close>

theorem bytes_artpath_decoded_before_resize_witness:
  "decode_utf8 example_env [0x2F, 0x6D, 0x2F, 0x63, 0x6F, 0x76, 0x65, 0x72, 0x2E, 0x6A, 0x70, 0x67]
     = Inr ''/m/cover.jpg''
   \<and> (msg_artwork (build_message example_env example_config [bytes_art_album] ([], [])),
       snd (build_message example_env example_config [bytes_art_album] ([], [])))
     = (Some ''/m/cover.jpg'', ([Getsize ''/m/cover.jpg''], []))
   \<and> decode_utf8 example_env [0x2F, 0xFF] = Inl (Exception ''invalid start byte'')
   \<and> build_message example_env example_config [bad_bytes_album] ([], [])
     = ((''Beets: 1 album imported'', ''A - X (2020)'', None),
        ([Log Debug ''failed to process artwork: invalid start byte''], []))"
proof -
  let ?good = "[0x2F, 0x6D, 0x2F, 0x63, 0x6F, 0x76, 0x65, 0x72, 0x2E, 0x6A, 0x70, 0x67] :: byte list"
  let ?bad = "[0x2F, 0xFF] :: byte list"
  have c: "1 \<le> truncate_cfg example_config" "artwork example_config"
    "show_first_art example_config"
    by (simp_all add: example_config_def)
  have m: "artwork_maxsize example_config = 0" by (simp add: example_config_def)
  have a1: "artpath bytes_art_album = Some (Bytes ?good)" "?good \<noteq> []"
    by (simp_all add: bytes_art_album_def)
  have a2: "artpath bad_bytes_album = Some (Bytes ?bad)" "?bad \<noteq> []"
    by (simp_all add: bad_bytes_album_def)
  have d1: "decode_utf8 example_env ?good = Inr ''/m/cover.jpg''"
    by code_simp
  have d2: "decode_utf8 example_env ?bad = Inl (Exception ''invalid start byte'')"
    by code_simp
  have r: "resize_artwork example_env ''/m/cover.jpg'' 0 ([], []) =
      (Inr ''/m/cover.jpg'', ([Getsize ''/m/cover.jpg''], []))"
    by code_simp
  have v: "msg_title (build_message example_env example_config [bad_bytes_album] ([], []))
       = ''Beets: 1 album imported''"
    "msg_body (build_message example_env example_config [bad_bytes_album] ([], []))
       = ''A - X (2020)''"
    by code_simp+
  have 1: "(msg_artwork (build_message example_env example_config [bytes_art_album] ([], [])),
       snd (build_message example_env example_config [bytes_art_album] ([], [])))
     = (Some ''/m/cover.jpg'', ([Getsize ''/m/cover.jpg''], []))"
    using bytes_artpath_decoded_before_resize [OF c a1, where E = example_env and s = "([], [])" and rest = "[]"]
    by (simp add: d1 m r)
  have 2: "build_message example_env example_config [bad_bytes_album] ([], [])
     = ((''Beets: 1 album imported'', ''A - X (2020)'', None),
        ([Log Debug ''failed to process artwork: invalid start byte''], []))"
    using bytes_artpath_decoded_before_resize
      [OF c a2, where E = example_env and s = "([], [])" and rest = "[]"
         and E' = example_env and t = "([], [])"]
    by (simp add: d2 v log_def)
  show ?thesis using d1 1 d2 2 by (intro conjI)
qed


section \<open>Claims about \<open>resize_artwork\<close>\<close>

lemma temp_files_append: "temp_files (xs @ ys) = temp_files xs + temp_files ys"
  by (induction xs rule: temp_files.induct) simp_all

text \<open>
  Claim C7, as stated, fails: \<open>os.path.getsize\<close> is called before \<open>max_filesize\<close> is
  looked at, so for a path whose size cannot be read the function raises also when
  \<open>max_filesize\<close> is 0, instead of returning the path.
\<close>

theorem resize_of_unreadable_file_counterexample:
  "fst (resize_artwork example_env ''/m/missing.jpg'' 0 ([], []))
     = Inl (Exception ''No such file or directory'')
   \<and> fst (resize_artwork example_env ''/m/missing.jpg'' 0 ([], [])) \<noteq> Inr ''/m/missing.jpg''"
proof -
  have "fst (resize_artwork example_env ''/m/missing.jpg'' 0 ([], []))
     = Inl (Exception ''No such file or directory'')"
    by code_simp
  then show ?thesis by simp
qed

text \<open>
  Claim C7, amended. For a path whose size can be read: if \<open>max_filesize = 0\<close> or the size
  is at most \<open>max_filesize\<close>, \<open>resize_artwork\<close> returns the input path, creates no
  temporary file, calls no resizer and leaves the world as it was; only when the size
  exceeds a nonzero \<open>max_filesize\<close> is a temporary file created (one), and then the
  resizer is called with width 1000, the input path, the temporary name and
  \<open>max_filesize\<close>, and what it returns or raises is the result.
\<close>

theorem resize_artwork_only_above_cap:
  assumes "os_getsize E art_path (snd s) = Inr current_size"
  shows "(let out = resize_artwork E art_path max_filesize s;
              ext = snd (os_splitext E art_path)
          in temp_files (fst (snd out)) =
               temp_files (fst s) + (if max_filesize = 0 \<or> current_size \<le> max_filesize then 0 else 1)
             \<and> (if max_filesize = 0 \<or> current_size \<le> max_filesize
                then out = (Inr art_path, (fst s @ [Getsize art_path], snd s))
                else (case named_temporary_file E ext (snd s) of
                        (Inr tmp_name, w1) \<Rightarrow>
                          out = (fst (artresizer_resize E 1000 art_path tmp_name max_filesize w1),
                                 (fst s @ [Getsize art_path, NamedTemporaryFile ext,
                                           Resize 1000 art_path tmp_name max_filesize],
                                  snd (artresizer_resize E 1000 art_path tmp_name max_filesize w1)))
                      | (Inl e, w1) \<Rightarrow>
                          out = (Inl e, (fst s @ [Getsize art_path, NamedTemporaryFile ext], w1)))))"
proof (cases "max_filesize = 0 \<or> current_size \<le> max_filesize")
  case True
  then have "resize_artwork E art_path max_filesize s
      = (Inr art_path, (fst s @ [Getsize art_path], snd s))"
    using assms by (auto simp add: resize_artwork_def Let_def)
  then show ?thesis
    using True by (simp add: Let_def temp_files_append)
next
  case False
  obtain r w1 where n: "named_temporary_file E (snd (os_splitext E art_path)) (snd s) = (r, w1)"
    by (cases "named_temporary_file E (snd (os_splitext E art_path)) (snd s)")
  show ?thesis
  proof (cases r)
    case (Inl e)
    have "resize_artwork E art_path max_filesize s =
        (Inl e, (fst s @ [Getsize art_path, NamedTemporaryFile (snd (os_splitext E art_path))], w1))"
      using assms False n Inl by (simp add: resize_artwork_def Let_def)
    then show ?thesis
      using False n Inl by (simp add: Let_def temp_files_append)
  next
    case (Inr tmp_name)
    have "resize_artwork E art_path max_filesize s =
        (fst (artresizer_resize E 1000 art_path tmp_name max_filesize w1),
         (fst s @ [Getsize art_path, NamedTemporaryFile (snd (os_splitext E art_path)),
                   Resize 1000 art_path tmp_name max_filesize],
          snd (artresizer_resize E 1000 art_path tmp_name max_filesize w1)))"
      using assms False n Inr by (simp add: resize_artwork_def Let_def split: prod.splits)
    then show ?thesis
      using False n Inr by (simp add: Let_def temp_files_append)
  qed
qed

text \<open>The cover of 5000 bytes with no cap, with a cap of 5000 and with a cap of 100.\<close>

theorem resize_artwork_only_above_cap_witness:
  "os_getsize example_env ''/m/cover.jpg'' [] = Inr 5000
   \<and> resize_artwork example_env ''/m/cover.jpg'' 0 ([], [])
       = (Inr ''/m/cover.jpg'', ([Getsize ''/m/cover.jpg''], []))
   \<and> resize_artwork example_env ''/m/cover.jpg'' 5000 ([], [])
       = (Inr ''/m/cover.jpg'', ([Getsize ''/m/cover.jpg''], []))
   \<and> resize_artwork example_env ''/m/cover.jpg'' 100 ([], [])
       = (Inr ''/tmp/tmpab12.jpg'',
          ([Getsize ''/m/cover.jpg'', NamedTemporaryFile ''.jpg'',
            Resize 1000 ''/m/cover.jpg'' ''/tmp/tmpab12.jpg'' 100], []))"
proof -
  have g: "os_getsize example_env ''/m/cover.jpg'' (snd ([] :: event list, [] :: string list)) = Inr 5000"
    by (simp add: example_env_def)
  have e: "snd (os_splitext example_env ''/m/cover.jpg'') = ''.jpg''"
    by (simp add: example_env_def)
  have n: "named_temporary_file example_env ''.jpg'' [] = (Inr ''/tmp/tmpab12.jpg'', [])"
    by (simp add: example_env_def)
  have r: "artresizer_resize example_env 1000 ''/m/cover.jpg'' ''/tmp/tmpab12.jpg'' 100 []
      = (Inr ''/tmp/tmpab12.jpg'', [])"
    by (simp add: example_env_def)
  have 1: "resize_artwork example_env ''/m/cover.jpg'' 0 ([], [])
       = (Inr ''/m/cover.jpg'', ([Getsize ''/m/cover.jpg''], []))"
    using resize_artwork_only_above_cap [OF g, of 0] by (simp add: Let_def)
  have 2: "resize_artwork example_env ''/m/cover.jpg'' 5000 ([], [])
       = (Inr ''/m/cover.jpg'', ([Getsize ''/m/cover.jpg''], []))"
    using resize_artwork_only_above_cap [OF g, of 5000] by (simp add: Let_def)
  have 3: "resize_artwork example_env ''/m/cover.jpg'' 100 ([], [])
       = (Inr ''/tmp/tmpab12.jpg'',
          ([Getsize ''/m/cover.jpg'', NamedTemporaryFile ''.jpg'',
            Resize 1000 ''/m/cover.jpg'' ''/tmp/tmpab12.jpg'' 100], []))"
    using resize_artwork_only_above_cap [OF g, of 100] by (simp add: Let_def e n r)
  show ?thesis using g 1 2 3 by simp
qed


section \<open>Claims about \<open>send_notification\<close>\<close>

text \<open>Nothing but \<open>send_notification\<close> itself calls \<open>apobj.notify\<close>.\<close>

lemma notify_calls_append: "notify_calls (xs @ ys) = notify_calls xs + notify_calls ys"
  by (induction xs rule: notify_calls.induct) simp_all

lemma log_no_notify: "notify_calls (fst (log lv msg s)) = notify_calls (fst s)"
  by (simp add: log_def notify_calls_append)

lemma resize_artwork_no_notify:
  "notify_calls (fst (snd (resize_artwork E art_path max_filesize s))) = notify_calls (fst s)"
  by (simp add: resize_artwork_def Let_def notify_calls_append split: sum.splits prod.splits)

lemma try_artwork_no_notify:
  "notify_calls (fst (snd (try_artwork E cfg ap s))) = notify_calls (fst s)"
  by (simp add: try_artwork_def resize_artwork_no_notify
      split: option.splits path_val.splits sum.splits)

lemma build_loop_no_notify:
  "notify_calls (fst (snd (snd (build_loop E cfg (List.enumerate 0 xs) ([], None, s)))))
     = notify_calls (fst s)"
proof (cases xs)
  case Nil
  then show ?thesis by simp
next
  case (Cons a r)
  obtain res s' where t: "try_artwork E cfg (artpath a) s = (res, s')"
    by (cases "try_artwork E cfg (artpath a) s")
  have s': "notify_calls (fst s') = notify_calls (fst s)"
    using try_artwork_no_notify [of E cfg "artpath a" s] t by simp
  show ?thesis
    unfolding Cons build_loop_first
    by (simp add: t s' log_no_notify split: sum.splits exn.splits)
qed

lemma build_message_no_notify:
  "notify_calls (fst (snd (build_message E cfg albums s))) = notify_calls (fst s)"
proof -
  have "snd (build_message E cfg albums s) =
      snd (snd (build_loop E cfg
            (List.enumerate 0 (slice_to albums (min (int (length albums)) (truncate_cfg cfg))))
            ([], None, s)))"
    using build_message_loop [of E cfg albums s] by (metis snd_conv)
  then show ?thesis by (simp only: build_loop_no_notify)
qed

lemma add_urls_no_notify:
  "notify_calls (fst (add_urls E urls s)) = notify_calls (fst s)"
  by (induction urls arbitrary: s)
     (simp_all add: notify_calls_append log_no_notify split: prod.splits)

text \<open>
  Claim C8. \<open>send_notification\<close> calls \<open>apobj.notify\<close> once when the configured URL list
  is not empty and the Apprise object holds at least one target after the URLs were
  added (\<open>len(apobj) > 0\<close>), and not at all otherwise. With no URL configured it only
  logs one debug line and touches nothing else; when the Apprise object holds no target
  after the adding, it logs an error after the warnings of the adding and stops.
\<close>

theorem send_notification_delivers_at_most_once:
  "(let s1 = snd (build_message E cfg albums s);
        s2 = add_urls E (apprise_urls cfg) (fst s1, apprise_new E (snd s1));
        out = send_notification E cfg albums s
    in notify_calls (fst out) =
         notify_calls (fst s) + (if apprise_urls cfg \<noteq> [] \<and> 0 < apprise_len E (snd s2) then 1 else 0)
       \<and> (apprise_urls cfg = [] \<longrightarrow> out = log Debug ''no apprise URLs configured'' s)
       \<and> (apprise_urls cfg \<noteq> [] \<and> apprise_len E (snd s2) = 0 \<longrightarrow>
            out = log Error ''no valid apprise URLs configured'' s2))"
proof (cases "apprise_urls cfg = []")
  case True
  then have "send_notification E cfg albums s = log Debug ''no apprise URLs configured'' s"
    by (simp add: send_notification_def)
  then show ?thesis
    using True by (simp add: Let_def log_no_notify)
next
  case False
  obtain title body artwork_path s1 where
    bm: "build_message E cfg albums s = ((title, body, artwork_path), s1)"
    by (metis prod.collapse)
  define s2 where "s2 = add_urls E (apprise_urls cfg) (fst s1, apprise_new E (snd s1))"
  have s1: "snd (build_message E cfg albums s) = s1" by (simp add: bm)
  have n1: "notify_calls (fst s1) = notify_calls (fst s)"
    using build_message_no_notify [of E cfg albums s] by (simp add: bm)
  have n2: "notify_calls (fst s2) = notify_calls (fst s)"
    unfolding s2_def by (simp add: add_urls_no_notify n1)
  show ?thesis
  proof (cases "apprise_len E (snd s2) = 0")
    case True
    have "send_notification E cfg albums s = log Error ''no valid apprise URLs configured'' s2"
      using False True by (simp add: send_notification_def Let_def bm s2_def [symmetric])
    then show ?thesis
      unfolding Let_def s1 s2_def [symmetric]
      using False True by (simp add: log_no_notify n2)
  next
    case len: False
    define attach where "attach = (if truthy_str artwork_path then artwork_path else None)"
    obtain r w3 where nt: "apprise_notify E title body attach (snd s2) = (r, w3)"
      by (cases "apprise_notify E title body attach (snd s2)")
    have "\<exists>lv msg. send_notification E cfg albums s =
        log lv msg (fst s2 @ [Notify title body attach], w3)"
    proof (cases r)
      case (Inl e)
      obtain m where "e = Exception m" by (cases e)
      then show ?thesis
        using False len nt Inl
        by (auto simp add: send_notification_def Let_def bm s2_def [symmetric]
            attach_def [symmetric])
    next
      case (Inr success)
      then show ?thesis
        using False len nt
        by (cases success)
           (auto simp add: send_notification_def Let_def bm s2_def [symmetric]
              attach_def [symmetric])
    qed
    then have "notify_calls (fst (send_notification E cfg albums s)) = notify_calls (fst s) + 1"
      by (auto simp add: log_no_notify notify_calls_append n2)
    then show ?thesis
      unfolding Let_def s1 s2_def [symmetric]
      using False len by simp
  qed
qed

text \<open>
  No URL configured; the one URL \<open>bad://x\<close>, which the sink rejects; and the one URL of
  the example configuration, which it accepts.
\<close>

theorem send_notification_delivers_at_most_once_witness:
  "send_notification example_env (example_config\<lparr>apprise_urls := []\<rparr>) example_albums ([], [])
     = ([Log Debug ''no apprise URLs configured''], [])
   \<and> send_notification example_env (example_config\<lparr>apprise_urls := [''bad://x'']\<rparr>)
       example_albums ([], [])
     = ([Getsize ''/m/cover.jpg'', Add ''bad://x'', Log Warning ''failed to add apprise URL'',
         Log Error ''no valid apprise URLs configured''], [])
   \<and> notify_calls (fst (send_notification example_env example_config example_albums ([], []))) = 1"
proof -
  let ?none = "example_config\<lparr>apprise_urls := []\<rparr>"
  let ?bad = "example_config\<lparr>apprise_urls := [''bad://x'']\<rparr>"
  have 1: "send_notification example_env ?none example_albums ([], [])
     = ([Log Debug ''no apprise URLs configured''], [])"
    using send_notification_delivers_at_most_once [of example_env ?none example_albums "([], [])"]
    by (simp add: Let_def log_def)
  have b: "snd (build_message example_env ?bad example_albums ([], []))
      = ([Getsize ''/m/cover.jpg''], [])"
    by code_simp
  have a: "add_urls example_env [''bad://x''] ([Getsize ''/m/cover.jpg''], apprise_new example_env [])
      = ([Getsize ''/m/cover.jpg'', Add ''bad://x'', Log Warning ''failed to add apprise URL''], [])"
    by code_simp
  have l: "apprise_len example_env [] = 0" by (simp add: example_env_def)
  have 2: "send_notification example_env ?bad example_albums ([], [])
     = ([Getsize ''/m/cover.jpg'', Add ''bad://x'', Log Warning ''failed to add apprise URL'',
         Log Error ''no valid apprise URLs configured''], [])"
    using send_notification_delivers_at_most_once [of example_env ?bad example_albums "([], [])"]
    by (simp add: Let_def b a l log_def del: add_urls.simps)
  have u: "apprise_urls example_config = [''json://localhost'']"
    by (simp add: example_config_def)
  have b': "snd (build_message example_env example_config example_albums ([], []))
      = ([Getsize ''/m/cover.jpg''], [])"
    by code_simp
  have a': "add_urls example_env [''json://localhost'']
        ([Getsize ''/m/cover.jpg''], apprise_new example_env [])
      = ([Getsize ''/m/cover.jpg'', Add ''json://localhost''], [''json://localhost''])"
    by code_simp
  have l': "apprise_len example_env [''json://localhost''] = 1" by (simp add: example_env_def)
  have 3: "notify_calls (fst (send_notification example_env example_config example_albums ([], []))) = 1"
    using send_notification_delivers_at_most_once
      [of example_env example_config example_albums "([], [])"]
    by (simp add: Let_def u b' a' l' del: add_urls.simps)
  show ?thesis using 1 2 3 by (intro conjI)
qed

section \<open>Claims about \<open>notify_on_cli_exit\<close>\<close>

text \<open>
  Claim C5, as stated, fails: with an empty batch \<open>notify_on_cli_exit\<close> returns before
  its debug line, so no debug line is logged, not one.
\<close>

theorem empty_batch_one_debug_line_counterexample:
  "logged Debug (fst (io (notify_on_cli_exit example_env empty_plugin))) = []
   \<and> length (logged Debug (fst (io (notify_on_cli_exit example_env empty_plugin)))) \<noteq> 1"
  by (simp add: notify_on_cli_exit_def empty_plugin_def)

text \<open>
  Claim C5, amended. For an empty batch at run end nothing happens at all: the plugin, its
  trace and the world are unchanged, so no message is composed, no delivery is attempted
  and no line is logged at any level.
\<close>

theorem empty_batch_is_skipped:
  assumes "imported_albums self = []"
  shows "notify_on_cli_exit E self = self"
  using assms by (simp add: notify_on_cli_exit_def)

text \<open>The plugin that imported nothing.\<close>

theorem empty_batch_is_skipped_witness:
  "imported_albums empty_plugin = []
   \<and> notify_on_cli_exit example_env empty_plugin = empty_plugin
   \<and> io (notify_on_cli_exit example_env empty_plugin) = ([], [])"
proof -
  have h: "imported_albums empty_plugin = []" by (simp add: empty_plugin_def)
  have "io empty_plugin = ([], [])" by (simp add: empty_plugin_def)
  then show ?thesis
    using h empty_batch_is_skipped [OF h, of example_env] by simp
qed

text \<open>
  Claim C6, as stated, fails: \<open>notify_on_cli_exit\<close> never assigns \<open>imported_albums\<close>, so
  after the notification of the example batch the batch is still there.
\<close>

theorem batch_reset_counterexample:
  "imported_albums (notify_on_cli_exit example_env example_plugin) = example_albums
   \<and> imported_albums (notify_on_cli_exit example_env example_plugin) \<noteq> []"
  by (simp add: notify_on_cli_exit_def example_plugin_def example_albums_def Let_def)

text \<open>
  Claim C6, amended. At run end the full accumulated sequence is handed to
  \<open>send_notification\<close>, and the list is left as it was, whatever the outcome: the batch
  is not reset, and an album imported afterwards in the same process is appended to the
  albums of the earlier run.
\<close>

theorem batch_kept_after_notification:
  "imported_albums (notify_on_cli_exit E self) = imported_albums self
   \<and> io (notify_on_cli_exit E self) =
       (if imported_albums self = [] then io self
        else send_notification E (config self) (imported_albums self)
               (log Debug (''sending notification for ''
                  @ str_nat (length (imported_albums self)) @ '' album(s)'') (io self)))
   \<and> imported_albums (album_imported b (notify_on_cli_exit E self)) = imported_albums self @ [b]"
proof (cases "imported_albums self = []")
  case True
  then have "notify_on_cli_exit E self = self"
    by (simp add: notify_on_cli_exit_def)
  then show ?thesis
    using True by (simp add: album_imported_def)
next
  case False
  let ?s1 = "log Debug (''sending notification for ''
               @ str_nat (length (imported_albums self)) @ '' album(s)'') (io self)"
  have "notify_on_cli_exit E self =
      self\<lparr>io := send_notification E (config self) (imported_albums self) ?s1\<rparr>"
    using False by (simp add: notify_on_cli_exit_def Let_def)
  then show ?thesis
    using False by (simp add: album_imported_def)
qed

text \<open>The example batch after its notification, and after one more import.\<close>

theorem batch_kept_after_notification_witness:
  "imported_albums (notify_on_cli_exit example_env example_plugin) = example_albums
   \<and> imported_albums (album_imported missing_art_album (notify_on_cli_exit example_env example_plugin))
       = example_albums @ [missing_art_album]"
  using batch_kept_after_notification [of example_env example_plugin missing_art_album]
  by (simp add: example_plugin_def)

end
